theory Spec2Isabelle
  imports Main "HOL-Library.Sublist"
begin

section \<open>Python strings\<close>

text \<open>
  A Python \<open>str\<close> is modelled as a \<open>string\<close> whose characters are the code points
  below 256. \<open>str.lower\<close> and \<open>str.strip\<close> are written out for that range as Python
  defines them; \<open>str.replace\<close> is only ever called with a one-character pattern.
\<close>

definition backslash :: char where
  "backslash = CHR 0x5C"

definition squote :: char where
  "squote = CHR 0x27"

definition replace_char :: "char \<Rightarrow> string \<Rightarrow> string \<Rightarrow> string" where
  \<comment> \<open>\<open>s.replace(old, new)\<close> for a pattern \<open>old\<close> of length one\<close>
  "replace_char old new s = concat (map (\<lambda>c. if c = old then new else [c]) s)"

definition upper_chars :: string where
  "upper_chars = ''ABCDEFGHIJKLMNOPQRSTUVWXYZ'' @
     [CHR 0xC0, CHR 0xC1, CHR 0xC2, CHR 0xC3, CHR 0xC4, CHR 0xC5, CHR 0xC6, CHR 0xC7,
      CHR 0xC8, CHR 0xC9, CHR 0xCA, CHR 0xCB, CHR 0xCC, CHR 0xCD, CHR 0xCE, CHR 0xCF,
      CHR 0xD0, CHR 0xD1, CHR 0xD2, CHR 0xD3, CHR 0xD4, CHR 0xD5, CHR 0xD6,
      CHR 0xD8, CHR 0xD9, CHR 0xDA, CHR 0xDB, CHR 0xDC, CHR 0xDD, CHR 0xDE]"

definition lower_chars :: string where
  "lower_chars = ''abcdefghijklmnopqrstuvwxyz'' @
     [CHR 0xE0, CHR 0xE1, CHR 0xE2, CHR 0xE3, CHR 0xE4, CHR 0xE5, CHR 0xE6, CHR 0xE7,
      CHR 0xE8, CHR 0xE9, CHR 0xEA, CHR 0xEB, CHR 0xEC, CHR 0xED, CHR 0xEE, CHR 0xEF,
      CHR 0xF0, CHR 0xF1, CHR 0xF2, CHR 0xF3, CHR 0xF4, CHR 0xF5, CHR 0xF6,
      CHR 0xF8, CHR 0xF9, CHR 0xFA, CHR 0xFB, CHR 0xFC, CHR 0xFD, CHR 0xFE]"

definition lower_char :: "char \<Rightarrow> char" where
  "lower_char c = (case map_of (zip upper_chars lower_chars) c of None \<Rightarrow> c | Some d \<Rightarrow> d)"

definition lower :: "string \<Rightarrow> string" where
  \<comment> \<open>\<open>s.lower()\<close>\<close>
  "lower s = map lower_char s"

section \<open>Command builder\<close>

subsection \<open>Path escaping\<close>

text \<open>
  \<^verbatim>\<open>
  def ffmpeg_escape_for_subtitles(path: str) -> str:
      p = path.replace("\\", "\\\\").replace(":", r"\:")
      p = p.replace("'", r"\'")
      return f"'{p}'"
  \<close>
\<close>

definition ffmpeg_escape_for_subtitles :: "string \<Rightarrow> string" where
  "ffmpeg_escape_for_subtitles path =
     (let p = replace_char CHR '':'' [backslash, CHR '':'']
                (replace_char backslash [backslash, backslash] path);
          p = replace_char squote [backslash, squote] p
      in [squote] @ p @ [squote])"

text \<open>The net effect of the three passes on one character of the input.\<close>

definition escaped_char :: "char \<Rightarrow> string" where
  "escaped_char c =
     (if c = backslash then [backslash, backslash]
      else if c = CHR '':'' then [backslash, CHR '':'']
      else if c = squote then [backslash, squote]
      else [c])"

subsection \<open>Compression presets\<close>

text \<open>
  \<^verbatim>\<open>
  def build_encode_args(mode: str):
      mode = mode.lower()
      if mode == "smallest":
          return ["-c:v", "libx265", "-preset", "medium", "-crf", "28"], ["-c:a", "aac", "-b:a", "128k"]
      if mode == "smaller":
          return ["-c:v", "libx264", "-preset", "medium", "-crf", "24"], ["-c:a", "aac", "-b:a", "160k"]
      return ["-c:v", "libx264", "-preset", "medium", "-crf", "18"], ["-c:a", "aac", "-b:a", "192k"]
  \<close>
\<close>

definition build_encode_args :: "string \<Rightarrow> string list \<times> string list" where
  "build_encode_args mode =
     (let mode = lower mode in
      if mode = ''smallest'' then
        ([''-c:v'', ''libx265'', ''-preset'', ''medium'', ''-crf'', ''28''],
         [''-c:a'', ''aac'', ''-b:a'', ''128k''])
      else if mode = ''smaller'' then
        ([''-c:v'', ''libx264'', ''-preset'', ''medium'', ''-crf'', ''24''],
         [''-c:a'', ''aac'', ''-b:a'', ''160k''])
      else
        ([''-c:v'', ''libx264'', ''-preset'', ''medium'', ''-crf'', ''18''],
         [''-c:a'', ''aac'', ''-b:a'', ''192k'']))"

text \<open>The rows of the preset table: codec, preset, CRF, audio codec, audio bitrate.\<close>

definition preset_row :: "string \<Rightarrow> string \<Rightarrow> string \<Rightarrow> string \<Rightarrow> string \<Rightarrow> string list \<times> string list" where
  "preset_row vcodec preset crf acodec abitrate =
     ([''-c:v'', vcodec, ''-preset'', preset, ''-crf'', crf], [''-c:a'', acodec, ''-b:a'', abitrate])"

definition normal_row :: "string list \<times> string list" where
  "normal_row = preset_row ''libx264'' ''medium'' ''18'' ''aac'' ''192k''"

definition smaller_row :: "string list \<times> string list" where
  "smaller_row = preset_row ''libx264'' ''medium'' ''24'' ''aac'' ''160k''"

definition smallest_row :: "string list \<times> string list" where
  "smallest_row = preset_row ''libx265'' ''medium'' ''28'' ''aac'' ''128k''"

subsection \<open>Filter chain\<close>

text \<open>An \<open>int\<close> inside an f-string is rendered in decimal.\<close>

fun str_nat :: "nat \<Rightarrow> string" where
  "str_nat n =
     (if n < 10 then [''0123456789'' ! n]
      else str_nat (n div 10) @ [''0123456789'' ! (n mod 10)])"

definition str_int :: "int \<Rightarrow> string" where
  "str_int i = (if i < 0 then ''-'' @ str_nat (nat (- i)) else str_nat (nat i))"

definition DEFAULT_FONT :: string where
  "DEFAULT_FONT = ''Arial''"

definition DEFAULT_OUTLINE :: int where
  "DEFAULT_OUTLINE = 2"

definition DEFAULT_SHADOW :: int where
  "DEFAULT_SHADOW = 1"

text \<open>
  \<^verbatim>\<open>
  def build_filter_complex(en_srt, vi_srt, downscale_720, font_size, en_margin, vi_margin):
      style_common = f"FontName={DEFAULT_FONT},Fontsize={font_size},Outline={DEFAULT_OUTLINE},Shadow={DEFAULT_SHADOW}"
      en = ffmpeg_escape_for_subtitles(en_srt)
      vi = ffmpeg_escape_for_subtitles(vi_srt)
      p1 = f"[0:v]subtitles={en}:charenc=UTF-8:force_style='Alignment=2,MarginV={en_margin},{style_common}'[v1]"
      p2 = f"[v1]subtitles={vi}:charenc=UTF-8:force_style='Alignment=2,MarginV={vi_margin},{style_common}'[v2]"
      p3 = "[v2]scale=-2:720[vout]" if downscale_720 else "[v2]copy[vout]"
      if downscale_720:
          chain = f"{p1};{p2};{p3}"
      else:
          chain = f"{p1};{p2};[v2]format=yuv420p[vout]"
      return chain
  \<close>
\<close>

definition build_filter_complex ::
  "string \<Rightarrow> string \<Rightarrow> bool \<Rightarrow> int \<Rightarrow> int \<Rightarrow> int \<Rightarrow> string" where
  "build_filter_complex en_srt vi_srt downscale_720 font_size en_margin vi_margin =
     (let style_common =
            ''FontName='' @ DEFAULT_FONT @ '',Fontsize='' @ str_int font_size @
            '',Outline='' @ str_int DEFAULT_OUTLINE @ '',Shadow='' @ str_int DEFAULT_SHADOW;
          en = ffmpeg_escape_for_subtitles en_srt;
          vi = ffmpeg_escape_for_subtitles vi_srt;
          p1 = ''[0:v]subtitles='' @ en @ '':charenc=UTF-8:force_style='Alignment=2,MarginV='' @
               str_int en_margin @ '','' @ style_common @ [squote] @ ''[v1]'';
          p2 = ''[v1]subtitles='' @ vi @ '':charenc=UTF-8:force_style='Alignment=2,MarginV='' @
               str_int vi_margin @ '','' @ style_common @ [squote] @ ''[v2]'';
          p3 = (if downscale_720 then ''[v2]scale=-2:720[vout]'' else ''[v2]copy[vout]'')
      in if downscale_720 then p1 @ '';'' @ p2 @ '';'' @ p3
         else p1 @ '';'' @ p2 @ '';[v2]format=yuv420p[vout]'')"

text \<open>
  The shape of one subtitle stage as the specification describes it: an input label, the
  subtitle file (escaped), bottom-centre alignment, a vertical margin, the shared style,
  and an output label.
\<close>

definition subtitle_stage :: "string \<Rightarrow> string \<Rightarrow> int \<Rightarrow> string \<Rightarrow> string \<Rightarrow> string" where
  "subtitle_stage inp file margin style out =
     inp @ ''subtitles='' @ ffmpeg_escape_for_subtitles file @ '':charenc=UTF-8:force_style='' @
     [squote] @ ''Alignment=2,MarginV='' @ str_int margin @ '','' @ style @ [squote] @ out"

definition shared_style :: "int \<Rightarrow> string" where
  "shared_style font_size =
     ''FontName=Arial,Fontsize='' @ str_int font_size @ '',Outline=2,Shadow=1''"

definition rescale_stage :: string where
  "rescale_stage = ''[v2]scale=-2:720[vout]''"

definition format_stage :: string where
  "format_stage = ''[v2]format=yuv420p[vout]''"

subsection \<open>Executable resolution\<close>

text \<open>
  What the program asks of its surroundings: the search path (\<open>shutil.which\<close>), the
  operating system (\<open>platform.system\<close>), the file system (\<open>Path.exists\<close>,
  \<open>os.path.isfile\<close>, \<open>os.path.isdir\<close>) and the child process (\<open>subprocess.Popen\<close>
  followed by \<open>wait\<close>: an exception or an exit code).
\<close>

datatype error = FileNotFoundError string | ProcessError string

record env =
  which :: "string \<Rightarrow> string option"
  platform_system :: string
  path_exists :: "string \<Rightarrow> bool"
  isfile :: "string \<Rightarrow> bool"
  isdir :: "string \<Rightarrow> bool"
  popen_wait :: "string list \<Rightarrow> error + int"

text \<open>
  \<^verbatim>\<open>
  def ffmpeg_path_guess() -> str:
      p = shutil.which("ffmpeg")
      if p:
          return p
      if platform.system() == "Windows":
          win_candidate = Path("C:/ffmpeg/bin/ffmpeg.exe")
          if win_candidate.exists():
              return str(win_candidate)
      raise FileNotFoundError("FFmpeg executable not found. Install it or add to PATH.")
  \<close>
  \<open>if p\<close> is false for \<open>None\<close> and for the empty string. On Windows the path prints with
  backslashes.
\<close>

definition win_candidate :: string where
  "win_candidate = ''C:'' @ [backslash] @ ''ffmpeg'' @ [backslash] @ ''bin'' @ [backslash] @ ''ffmpeg.exe''"

definition tool_not_found :: error where
  "tool_not_found = FileNotFoundError ''FFmpeg executable not found. Install it or add to PATH.''"

definition ffmpeg_path_guess :: "env \<Rightarrow> error + string" where
  "ffmpeg_path_guess e =
     (let fallback =
            (if platform_system e = ''Windows'' then
               (if path_exists e win_candidate then Inr win_candidate else Inl tool_not_found)
             else Inl tool_not_found)
      in case which e ''ffmpeg'' of
           None \<Rightarrow> fallback
         | Some p \<Rightarrow> if p \<noteq> [] then Inr p else fallback)"

subsection \<open>The command\<close>

text \<open>
  \<^verbatim>\<open>
  def run_ffmpeg(video, en_srt, vi_srt, out_path, mode, downscale_720, font_size, en_margin, vi_margin, progress_cb=None):
      ffmpeg = ffmpeg_path_guess()
      filter_complex = build_filter_complex(en_srt, vi_srt, downscale_720, font_size, en_margin, vi_margin)
      v_args, a_args = build_encode_args(mode)
      cmd = [ffmpeg, "-y", "-i", video, "-filter_complex", filter_complex,
             "-map", "[vout]", "-map", "0:a?", *v_args, *a_args,
             "-movflags", "+faststart", out_path]
      proc = subprocess.Popen(cmd, ...)
      ...
      return proc.wait()
  \<close>
  \<open>ffmpeg_cmd\<close> is the list \<open>cmd\<close>; the lines read from the child for the progress
  callback do not influence the result and are left out.
\<close>

definition ffmpeg_cmd ::
  "string \<Rightarrow> string \<Rightarrow> string \<Rightarrow> string \<Rightarrow> string \<Rightarrow> string \<Rightarrow> bool \<Rightarrow> int \<Rightarrow> int \<Rightarrow> int \<Rightarrow> string list" where
  "ffmpeg_cmd ffmpeg video en_srt vi_srt out_path mode downscale_720 font_size en_margin vi_margin =
     (let filter_complex =
            build_filter_complex en_srt vi_srt downscale_720 font_size en_margin vi_margin;
          (v_args, a_args) = build_encode_args mode
      in [ffmpeg, ''-y'', ''-i'', video, ''-filter_complex'', filter_complex,
          ''-map'', ''[vout]'', ''-map'', ''0:a?''] @ v_args @ a_args @
         [''-movflags'', ''+faststart'', out_path])"

definition run_ffmpeg ::
  "env \<Rightarrow> string \<Rightarrow> string \<Rightarrow> string \<Rightarrow> string \<Rightarrow> string \<Rightarrow> bool \<Rightarrow> int \<Rightarrow> int \<Rightarrow> int \<Rightarrow> error + int" where
  "run_ffmpeg e video en_srt vi_srt out_path mode downscale_720 font_size en_margin vi_margin =
     (case ffmpeg_path_guess e of
        Inl err \<Rightarrow> Inl err
      | Inr ffmpeg \<Rightarrow>
          popen_wait e
            (ffmpeg_cmd ffmpeg video en_srt vi_srt out_path mode downscale_720 font_size
               en_margin vi_margin))"

section \<open>Interactive shell\<close>

subsection \<open>Whitespace and substrings\<close>

text \<open>
  \<open>str.strip()\<close> removes the characters for which \<open>str.isspace\<close> holds from both ends;
  below 256 these are the twelve listed here. \<open>k in s\<close> is the substring test.
\<close>

definition whitespace_chars :: string where
  "whitespace_chars =
     [CHR 0x09, CHR 0x0A, CHR 0x0B, CHR 0x0C, CHR 0x0D, CHR 0x1C, CHR 0x1D, CHR 0x1E,
      CHR 0x1F, CHR 0x20, CHR 0x85, CHR 0xA0]"

definition is_space :: "char \<Rightarrow> bool" where
  "is_space c = (c \<in> set whitespace_chars)"

definition strip :: "string \<Rightarrow> string" where
  "strip s = rev (dropWhile is_space (rev (dropWhile is_space s)))"

fun str_contains :: "string \<Rightarrow> string \<Rightarrow> bool" where
  "str_contains k [] = (k = [])"
| "str_contains k (c # s) = (prefix k (c # s) \<or> str_contains k s)"

subsection \<open>Paths\<close>

text \<open>
  The part of \<open>pathlib\<close> the program uses, in its POSIX flavour: a path is split at
  \<open>/\<close>, empty components and \<open>.\<close> components are dropped, and the root is \<open>/\<close>, or
  \<open>//\<close> for exactly two leading slashes. \<open>name\<close> is the last component; \<open>suffix\<close> starts
  at the last dot of the name when that dot is neither its first nor its last character,
  and \<open>stem\<close> is the name without the suffix. \<open>Path(a) / b\<close> joins the two strings as
  \<open>posixpath.join\<close> does and normalises the result.

  \<open>Path\<close> is \<open>PosixPath\<close> or \<open>WindowsPath\<close>, by platform, and the two differ: the Windows
  flavour also splits at the backslash and at a drive, and prints with backslashes.
  The output path that \<open>_start\<close> builds is therefore taken through a \<open>pathlib\<close>
  record, the flavour of the platform, of which \<open>posix_pathlib\<close> is the one written
  out here. The drop handler asks only for the name and the suffix of a dropped path;
  these are modelled in the POSIX flavour.
\<close>

fun split_on :: "char \<Rightarrow> string \<Rightarrow> string list" where
  "split_on sep [] = [[]]"
| "split_on sep (c # s) =
     (if c = sep then [] # split_on sep s
      else (case split_on sep s of [] \<Rightarrow> [[c]] | x # xs \<Rightarrow> (c # x) # xs))"

definition path_parts :: "string \<Rightarrow> string list" where
  "path_parts p = filter (\<lambda>x. x \<noteq> [] \<and> x \<noteq> ''.'') (split_on CHR ''/'' p)"





definition path_name :: "string \<Rightarrow> string" where
  \<comment> \<open>\<open>Path(p).name\<close>\<close>
  "path_name p = (if path_parts p = [] then [] else last (path_parts p))"

definition rfind :: "char \<Rightarrow> string \<Rightarrow> nat option" where
  \<comment> \<open>\<open>s.rfind(c)\<close>, with \<open>None\<close> for -1\<close>
  "rfind c s =
     (if c \<in> set s then Some (length s - 1 - length (takeWhile (\<lambda>x. x \<noteq> c) (rev s)))
      else None)"

definition path_suffix :: "string \<Rightarrow> string" where
  \<comment> \<open>\<open>Path(p).suffix\<close>\<close>
  "path_suffix p =
     (let name = path_name p in
      case rfind CHR ''.'' name of
        None \<Rightarrow> []
      | Some i \<Rightarrow> if 0 < i \<and> i + 1 < length name then drop i name else [])"






definition VID_EXTS :: "string set" where
  "VID_EXTS = {''.mp4'', ''.mkv'', ''.mov'', ''.avi'', ''.m4v''}"

subsection \<open>Interface state\<close>

text \<open>
  The variables of \<open>App\<close>. The status line is only ever written; the two texts the
  modelled actions write are its values. \<open>progress_running\<close> is the state of the
  progress bar, started by \<open>_start\<close>: the interface is idle while it is off.
  The three numeric variables are bound to spinboxes, whose text can be edited freely:
  \<open>spin_vars_numeric\<close> says that each of the three texts reads as a number, as it does
  initially, and the three \<open>int\<close> fields are then what \<open>IntVar.get()\<close> returns; when a
  text does not read as a number, \<open>IntVar.get()\<close> raises \<open>TclError\<close>.
  \<^verbatim>\<open>
  self.video_path = tk.StringVar()
  self.en_srt_path = tk.StringVar()
  self.vi_srt_path = tk.StringVar()
  self.out_dir = tk.StringVar(value=str(Path.home()))
  self.status_text = tk.StringVar(value="Drop files or click Browse...")
  self.mode = tk.StringVar(value="Smaller")
  self.downscale = tk.BooleanVar(value=False)
  self.font_size_var = tk.IntVar(value=24)
  self.en_margin_var = tk.IntVar(value=60)
  self.vi_margin_var = tk.IntVar(value=24)
  \<close>
\<close>

datatype status = Drop_or_Browse | Starting_FFmpeg

record app =
  video_path :: string
  en_srt_path :: string
  vi_srt_path :: string
  out_dir :: string
  status_text :: status
  mode :: string
  downscale :: bool
  font_size_var :: int
  en_margin_var :: int
  vi_margin_var :: int
  progress_running :: bool
  spin_vars_numeric :: bool

definition init_app :: "string \<Rightarrow> app" where
  "init_app home =
     \<lparr>video_path = [], en_srt_path = [], vi_srt_path = [], out_dir = home,
      status_text = Drop_or_Browse, mode = ''Smaller'', downscale = False,
      font_size_var = 24, en_margin_var = 60, vi_margin_var = 24,
      progress_running = False, spin_vars_numeric = True\<rparr>"

subsection \<open>Drag and drop\<close>

text \<open>
  \<^verbatim>\<open>
  def _parse_dnd_list(self, data: str):
      items = []
      token = ''
      in_brace = False
      for ch in data:
          if ch == '{':
              in_brace = True
              token = ''
          elif ch == '}':
              in_brace = False
              items.append(token)
              token = ''
          elif ch == ' ' and not in_brace:
              if token:
                  items.append(token)
                  token = ''
          else:
              token += ch
      if token:
          items.append(token)
      return items
  \<close>
\<close>

fun parse_dnd_loop :: "string \<Rightarrow> string list \<Rightarrow> string \<Rightarrow> bool \<Rightarrow> string list \<times> string" where
  "parse_dnd_loop [] items token in_brace = (items, token)"
| "parse_dnd_loop (ch # data) items token in_brace =
     (if ch = CHR ''{'' then parse_dnd_loop data items [] True
      else if ch = CHR ''}'' then parse_dnd_loop data (items @ [token]) [] False
      else if ch = CHR '' '' \<and> \<not> in_brace then
        (if token \<noteq> [] then parse_dnd_loop data (items @ [token]) [] in_brace
         else parse_dnd_loop data items token in_brace)
      else parse_dnd_loop data items (token @ [ch]) in_brace)"

definition parse_dnd_list :: "string \<Rightarrow> string list" where
  "parse_dnd_list data =
     (case parse_dnd_loop data [] [] False of
        (items, token) \<Rightarrow> if token \<noteq> [] then items @ [token] else items)"

text \<open>
  \<^verbatim>\<open>
  def _on_multi_drop(self, event):
      paths = self._parse_dnd_list(event.data)
      for p in paths:
          p = p.strip()
          if not p:
              continue
          if os.path.isdir(p):
              self.out_dir.set(p)
              continue
          ext = Path(p).suffix.lower()
          if ext in VID_EXTS:
              self.video_path.set(p)
          elif ext == ".srt":
              name = Path(p).name.lower()
              if any(k in name for k in ["vi", "viet", "vietnam"]):
                  self.vi_srt_path.set(p)
              elif not self.en_srt_path.get():
                  self.en_srt_path.set(p)
              else:
                  self.vi_srt_path.set(p)
  \<close>
  \<open>multi_drop_step\<close> is the body of the loop, \<open>multi_drop_paths\<close> the loop.
\<close>

definition has_vi_hint :: "string \<Rightarrow> bool" where
  "has_vi_hint name = list_ex (\<lambda>k. str_contains k name) [''vi'', ''viet'', ''vietnam'']"

definition multi_drop_step :: "env \<Rightarrow> app \<Rightarrow> string \<Rightarrow> app" where
  "multi_drop_step e s p0 =
     (let p = strip p0 in
      if p = [] then s
      else if isdir e p then s\<lparr>out_dir := p\<rparr>
      else
        (let ext = lower (path_suffix p) in
         if ext \<in> VID_EXTS then s\<lparr>video_path := p\<rparr>
         else if ext = ''.srt'' then
           (let name = lower (path_name p) in
            if has_vi_hint name then s\<lparr>vi_srt_path := p\<rparr>
            else if en_srt_path s = [] then s\<lparr>en_srt_path := p\<rparr>
            else s\<lparr>vi_srt_path := p\<rparr>)
         else s))"

fun multi_drop_paths :: "env \<Rightarrow> app \<Rightarrow> string list \<Rightarrow> app" where
  "multi_drop_paths e s [] = s"
| "multi_drop_paths e s (p # paths) = multi_drop_paths e (multi_drop_step e s p) paths"

definition on_multi_drop :: "env \<Rightarrow> app \<Rightarrow> string \<Rightarrow> app" where
  "on_multi_drop e s data = multi_drop_paths e s (parse_dnd_list data)"

subsection \<open>The classification, as the specification words it\<close>

text \<open>
  The items of a drop are its paths, stripped, without the empty ones. An item is a
  directory, a video file (not a directory, with a known video extension), a subtitle
  file (not a directory, with extension \<open>.srt\<close>) or none of these. A subtitle file is
  hinted when its lowercase name contains one of the Vietnamese hints. \<open>route_srts\<close>
  routes the subtitle files in order: a hinted file to the Vietnamese slot, any other
  to the English slot while that is empty and to the Vietnamese slot afterwards.
\<close>

definition dropped_items :: "string list \<Rightarrow> string list" where
  "dropped_items paths = filter (\<lambda>q. q \<noteq> []) (map strip paths)"

definition is_video_file :: "env \<Rightarrow> string \<Rightarrow> bool" where
  "is_video_file e q = (\<not> isdir e q \<and> lower (path_suffix q) \<in> VID_EXTS)"

definition is_srt_file :: "env \<Rightarrow> string \<Rightarrow> bool" where
  "is_srt_file e q = (\<not> isdir e q \<and> lower (path_suffix q) = ''.srt'')"

definition vi_hinted :: "string \<Rightarrow> bool" where
  "vi_hinted q = has_vi_hint (lower (path_name q))"

definition last_or :: "'a \<Rightarrow> 'a list \<Rightarrow> 'a" where
  "last_or d xs = (if xs = [] then d else last xs)"

fun route_srts :: "string \<Rightarrow> string \<Rightarrow> string list \<Rightarrow> string \<times> string" where
  "route_srts en vi [] = (en, vi)"
| "route_srts en vi (q # qs) =
     (if vi_hinted q then route_srts en q qs
      else if en = [] then route_srts q vi qs
      else route_srts en q qs)"

text \<open>
  A sample environment: one directory, \<open>/out\<close>, three files, and the tool on the search
  path.
\<close>

definition sample_env :: env where
  "sample_env =
     \<lparr>which = (\<lambda>n. if n = ''ffmpeg'' then Some ''/usr/bin/ffmpeg'' else None),
      platform_system = ''Linux'',
      path_exists = (\<lambda>p. True),
      isfile = (\<lambda>p. p = ''/a/movie.mp4'' \<or> p = ''/a/english.srt'' \<or>
                     p = ''/a/vietnamese_sub.srt''),
      isdir = (\<lambda>p. p = ''/out''),
      popen_wait = (\<lambda>cmd. Inr 0)\<rparr>"

text \<open>
  \<^verbatim>\<open>
  def _swap_srts(self):
      tmp = self.en_srt_path.get()
      self.en_srt_path.set(self.vi_srt_path.get())
      self.vi_srt_path.set(tmp)
  \<close>
\<close>

definition swap_srts :: "app \<Rightarrow> app" where
  "swap_srts s =
     (let tmp = en_srt_path s;
          s = s\<lparr>en_srt_path := vi_srt_path s\<rparr>
      in s\<lparr>vi_srt_path := tmp\<rparr>)"

subsection \<open>Start\<close>





section \<open>Facts about strings\<close>

lemma replace_char_Nil: "replace_char old new [] = []"
  by (simp add: replace_char_def)

lemma replace_char_Cons:
  "replace_char old new (c # s) = (if c = old then new else [c]) @ replace_char old new s"
  by (simp add: replace_char_def)

lemma replace_char_append:
  "replace_char old new (s @ t) = replace_char old new s @ replace_char old new t"
  by (simp add: replace_char_def)

lemma fst_zip_upper: "fst ` set (zip upper_chars lower_chars) = set upper_chars"
proof -
  have "length upper_chars = length lower_chars"
    by (simp add: upper_chars_def lower_chars_def)
  then have "map fst (zip upper_chars lower_chars) = upper_chars"
    by (rule map_fst_zip)
  then show ?thesis by (metis set_map)
qed

lemma lower_upper_disjoint: "set lower_chars \<inter> set upper_chars = {}"
  by (simp add: upper_chars_def lower_chars_def)

lemma lower_char_fixed: "c \<notin> set upper_chars \<Longrightarrow> lower_char c = c"
proof -
  assume "c \<notin> set upper_chars"
  then have "map_of (zip upper_chars lower_chars) c = None"
    by (simp only: map_of_eq_None_iff fst_zip_upper not_False_eq_True)
  then show ?thesis by (simp add: lower_char_def)
qed

lemma lower_char_not_upper: "lower_char c \<notin> set upper_chars"
proof (cases "map_of (zip upper_chars lower_chars) c")
  case None
  then have "c \<notin> set upper_chars"
    by (simp add: map_of_eq_None_iff fst_zip_upper)
  with None show ?thesis by (simp add: lower_char_def)
next
  case (Some d)
  then have "d \<in> set lower_chars"
    by (meson in_set_zipE map_of_SomeD)
  with Some lower_upper_disjoint show ?thesis
    by (auto simp: lower_char_def)
qed

lemma lower_char_idem: "lower_char (lower_char c) = lower_char c"
  by (rule lower_char_fixed) (rule lower_char_not_upper)

lemma lower_idem: "lower (lower s) = lower s"
  by (simp add: lower_def lower_char_idem)

lemma lower_fixed: "set s \<inter> set upper_chars = {} \<Longrightarrow> lower s = s"
  unfolding lower_def by (induction s) (simp_all add: lower_char_fixed)

lemma lower_smallest: "lower ''smallest'' = ''smallest''"
  by (rule lower_fixed) (simp add: upper_chars_def)

lemma lower_smaller: "lower ''smaller'' = ''smaller''"
  by (rule lower_fixed) (simp add: upper_chars_def)

lemma lower_normal: "lower ''normal'' = ''normal''"
  by (rule lower_fixed) (simp add: upper_chars_def)

lemma lower_Smallest: "lower ''Smallest'' = ''smallest''"
  by code_simp

lemma lower_Smaller: "lower ''Smaller'' = ''smaller''"
  by code_simp

lemma lower_Normal: "lower ''Normal'' = ''normal''"
  by code_simp

section \<open>Path escaping: results\<close>

lemma escape_passes:
  "replace_char squote [backslash, squote]
     (replace_char CHR '':'' [backslash, CHR '':'']
        (replace_char backslash [backslash, backslash] s)) = concat (map escaped_char s)"
  by (induction s)
    (simp_all add: replace_char_Nil replace_char_Cons replace_char_append escaped_char_def
      backslash_def squote_def)

text \<open>
  C1. The escaping function doubles each backslash, then prefixes each colon with a
  backslash, then prefixes each single quote with a backslash, and wraps the result in
  single quotes. In one pass over the input this is \<open>escaped_char\<close> on every character.
  The path \<^verbatim>\<open>C:\Vids\it's.srt\<close> escapes to \<^verbatim>\<open>'C\:\\Vids\\it\'s.srt'\<close>.
\<close>

theorem ffmpeg_escape_three_substitutions:
  "ffmpeg_escape_for_subtitles path =
     [squote] @
     replace_char squote [backslash, squote]
       (replace_char CHR '':'' [backslash, CHR '':'']
          (replace_char backslash [backslash, backslash] path)) @
     [squote] \<and>
   ffmpeg_escape_for_subtitles path = [squote] @ concat (map escaped_char path) @ [squote] \<and>
   ffmpeg_escape_for_subtitles (''C:'' @ [CHR 0x5C] @ ''Vids'' @ [CHR 0x5C] @ ''it's.srt'') =
     [CHR 0x27] @ ''C'' @ [CHR 0x5C] @ '':'' @ [CHR 0x5C, CHR 0x5C] @ ''Vids'' @
     [CHR 0x5C, CHR 0x5C] @ ''it'' @ [CHR 0x5C, CHR 0x27] @ ''s.srt'' @ [CHR 0x27]"
proof (intro conjI)
  show passes: "ffmpeg_escape_for_subtitles path =
     [squote] @
     replace_char squote [backslash, squote]
       (replace_char CHR '':'' [backslash, CHR '':'']
          (replace_char backslash [backslash, backslash] path)) @
     [squote]"
    by (simp add: ffmpeg_escape_for_subtitles_def Let_def)
  show "ffmpeg_escape_for_subtitles path = [squote] @ concat (map escaped_char path) @ [squote]"
    using passes by (simp only: escape_passes)
  show "ffmpeg_escape_for_subtitles (''C:'' @ [CHR 0x5C] @ ''Vids'' @ [CHR 0x5C] @ ''it's.srt'') =
     [CHR 0x27] @ ''C'' @ [CHR 0x5C] @ '':'' @ [CHR 0x5C, CHR 0x5C] @ ''Vids'' @
     [CHR 0x5C, CHR 0x5C] @ ''it'' @ [CHR 0x5C, CHR 0x27] @ ''s.srt'' @ [CHR 0x27]"
    by (simp add: ffmpeg_escape_for_subtitles_def Let_def replace_char_def backslash_def squote_def)
qed

section \<open>Compression presets: results\<close>

lemma build_encode_args_cases:
  "build_encode_args m =
     (if lower m = ''smallest'' then smallest_row
      else if lower m = ''smaller'' then smaller_row
      else normal_row)"
  by (simp add: build_encode_args_def Let_def smallest_row_def smaller_row_def normal_row_def
      preset_row_def)

text \<open>
  C2, as stated, fails: the mode string \<open>Smallest\<close> is none of \<open>normal\<close>,
  \<open>smaller\<close>, \<open>smallest\<close>, and it does not yield the \<open>normal\<close> row.
\<close>

theorem build_encode_args_other_mode_counterexample:
  "''Smallest'' \<noteq> ''normal'' \<and> ''Smallest'' \<noteq> ''smaller'' \<and> ''Smallest'' \<noteq> ''smallest'' \<and>
   build_encode_args ''Smallest'' \<noteq> build_encode_args ''normal''"
  by (simp add: build_encode_args_cases lower_Smallest lower_normal smallest_row_def
      normal_row_def preset_row_def)

text \<open>
  C2, amended. The mode is compared after lowercasing. \<open>normal\<close> yields libx264, medium,
  CRF 18, AAC 192k; \<open>smaller\<close> yields libx264, medium, CRF 24, AAC 160k; \<open>smallest\<close>
  yields libx265, medium, CRF 28, AAC 128k; every mode string yields one of these three
  rows; and every mode string whose lowercase form is neither \<open>smaller\<close> nor
  \<open>smallest\<close> yields the \<open>normal\<close> row.
\<close>

theorem build_encode_args_table:
  "build_encode_args ''normal'' = preset_row ''libx264'' ''medium'' ''18'' ''aac'' ''192k'' \<and>
   build_encode_args ''smaller'' = preset_row ''libx264'' ''medium'' ''24'' ''aac'' ''160k'' \<and>
   build_encode_args ''smallest'' = preset_row ''libx265'' ''medium'' ''28'' ''aac'' ''128k'' \<and>
   build_encode_args m \<in> {normal_row, smaller_row, smallest_row} \<and>
   (lower m \<noteq> ''smaller'' \<and> lower m \<noteq> ''smallest'' \<longrightarrow> build_encode_args m = normal_row)"
  by (simp add: build_encode_args_cases lower_normal lower_smaller lower_smallest
      normal_row_def smaller_row_def smallest_row_def)

theorem build_encode_args_table_witness:
  "lower ''fast'' \<noteq> ''smaller'' \<and> lower ''fast'' \<noteq> ''smallest'' \<and>
   build_encode_args ''fast'' = normal_row \<and>
   build_encode_args ''fast'' = ([''-c:v'', ''libx264'', ''-preset'', ''medium'', ''-crf'', ''18''],
                               [''-c:a'', ''aac'', ''-b:a'', ''192k''])"
proof -
  have l: "lower ''fast'' = ''fast''"
    by (rule lower_fixed) (simp add: upper_chars_def)
  show ?thesis
    using build_encode_args_table [of "''fast''"]
    by (simp add: l normal_row_def preset_row_def)
qed

text \<open>
  C9. Mode matching is case-insensitive: a mode string and its lowercase form yield the
  same result, and the names offered by the interface, \<open>Normal\<close>, \<open>Smaller\<close> and
  \<open>Smallest\<close>, select three different rows, each its own.
\<close>

theorem build_encode_args_case_insensitive:
  "build_encode_args (lower m) = build_encode_args m \<and>
   build_encode_args ''Normal'' = normal_row \<and>
   build_encode_args ''Smaller'' = smaller_row \<and>
   build_encode_args ''Smallest'' = smallest_row \<and>
   smaller_row \<noteq> normal_row \<and> smallest_row \<noteq> normal_row \<and> smallest_row \<noteq> smaller_row"
  by (simp add: build_encode_args_cases lower_idem lower_Normal lower_Smaller lower_Smallest
      normal_row_def smaller_row_def smallest_row_def preset_row_def)

section \<open>Filter chain: results\<close>

lemma str_int_small:
  "str_int 2 = ''2''" "str_int 1 = ''1''" "str_int 60 = ''60''" "str_int 24 = ''24''"
  by (simp_all add: str_int_def)

lemma build_filter_complex_stages:
  "build_filter_complex en vi ds fs em vm =
     subtitle_stage ''[0:v]'' en em (shared_style fs) ''[v1]'' @ '';'' @
     subtitle_stage ''[v1]'' vi vm (shared_style fs) ''[v2]'' @ '';'' @
     (if ds then rescale_stage else format_stage)"
  by (simp add: build_filter_complex_def Let_def subtitle_stage_def shared_style_def
      rescale_stage_def format_stage_def DEFAULT_FONT_def DEFAULT_OUTLINE_def DEFAULT_SHADOW_def
      str_int_small squote_def)

lemma stage_neq: "\<not> suffix rescale_stage format_stage" "\<not> suffix format_stage rescale_stage"
  by (simp_all add: rescale_stage_def format_stage_def suffix_to_prefix)

lemma not_suffix_append:
  "\<not> suffix xs zs \<Longrightarrow> \<not> suffix zs xs \<Longrightarrow> \<not> suffix xs (ys @ zs)"
  by (auto simp: suffix_def append_eq_append_conv2)

lemma final_stage_suffix:
  "suffix rescale_stage (build_filter_complex en vi ds fs em vm) = ds"
  "suffix format_stage (build_filter_complex en vi ds fs em vm) = (\<not> ds)"
proof -
  obtain body where chain: "build_filter_complex en vi ds fs em vm =
      body @ (if ds then rescale_stage else format_stage)"
    using build_filter_complex_stages [of en vi ds fs em vm]
    by (metis append.assoc)
  show "suffix rescale_stage (build_filter_complex en vi ds fs em vm) = ds"
    unfolding chain using stage_neq not_suffix_append [of rescale_stage format_stage body]
    by (cases ds) (simp_all add: suffix_appendI)
  show "suffix format_stage (build_filter_complex en vi ds fs em vm) = (\<not> ds)"
    unfolding chain using stage_neq not_suffix_append [of format_stage rescale_stage body]
    by (cases ds) (simp_all add: suffix_appendI)
qed

lemma default_chain:
  "build_filter_complex ''en.srt'' ''vi.srt'' False 24 60 24 =
     ''[0:v]subtitles='en.srt':charenc=UTF-8:force_style='Alignment=2,MarginV=60,FontName=Arial,Fontsize=24,Outline=2,Shadow=1'[v1];[v1]subtitles='vi.srt':charenc=UTF-8:force_style='Alignment=2,MarginV=24,FontName=Arial,Fontsize=24,Outline=2,Shadow=1'[v2];[v2]format=yuv420p[vout]''"
  by (simp add: build_filter_complex_def Let_def DEFAULT_FONT_def DEFAULT_OUTLINE_def
      DEFAULT_SHADOW_def str_int_small ffmpeg_escape_for_subtitles_def replace_char_def
      squote_def backslash_def)

text \<open>
  C3. For all subtitle paths and margins the chain is two subtitle stages and a final
  stage, separated by semicolons: the first stage reads \<open>[0:v]\<close>, applies the English
  file with \<open>Alignment=2\<close> and the English margin and writes \<open>[v1]\<close>; the second reads
  \<open>[v1]\<close>, applies the Vietnamese file with the same alignment and style and the
  Vietnamese margin and writes \<open>[v2]\<close>. The interface starts with English margin 60 and
  Vietnamese margin 24, and 60 exceeds 24; the chain it builds by default is evaluated.
\<close>

theorem build_filter_complex_two_stages:
  "build_filter_complex en vi ds fs em vm =
     subtitle_stage ''[0:v]'' en em (shared_style fs) ''[v1]'' @ '';'' @
     subtitle_stage ''[v1]'' vi vm (shared_style fs) ''[v2]'' @ '';'' @
     (if ds then rescale_stage else format_stage) \<and>
   en_margin_var (init_app home) = 60 \<and> vi_margin_var (init_app home) = 24 \<and>
   vi_margin_var (init_app home) < en_margin_var (init_app home) \<and>
   build_filter_complex ''en.srt'' ''vi.srt'' (downscale (init_app home))
       (font_size_var (init_app home)) (en_margin_var (init_app home))
       (vi_margin_var (init_app home)) =
     ''[0:v]subtitles='en.srt':charenc=UTF-8:force_style='Alignment=2,MarginV=60,FontName=Arial,Fontsize=24,Outline=2,Shadow=1'[v1];[v1]subtitles='vi.srt':charenc=UTF-8:force_style='Alignment=2,MarginV=24,FontName=Arial,Fontsize=24,Outline=2,Shadow=1'[v2];[v2]format=yuv420p[vout]''"
proof -
  have init: "downscale (init_app home) = False" "font_size_var (init_app home) = 24"
    "en_margin_var (init_app home) = 60" "vi_margin_var (init_app home) = 24"
    by (simp_all add: init_app_def)
  show ?thesis
  proof (intro conjI)
    show "build_filter_complex en vi ds fs em vm =
       subtitle_stage ''[0:v]'' en em (shared_style fs) ''[v1]'' @ '';'' @
       subtitle_stage ''[v1]'' vi vm (shared_style fs) ''[v2]'' @ '';'' @
       (if ds then rescale_stage else format_stage)"
      by (rule build_filter_complex_stages)
  qed (simp_all add: init default_chain)
qed

text \<open>
  C4. With the downscale flag set the chain ends with the stage \<open>[v2]scale=-2:720[vout]\<close>
  and does not end with \<open>[v2]format=yuv420p[vout]\<close>; with the flag unset it ends with
  \<open>[v2]format=yuv420p[vout]\<close> and does not end with the rescale stage. In both cases the
  final stage is the third stage of the chain.
\<close>

theorem build_filter_complex_final_stage:
  "suffix ''[v2]scale=-2:720[vout]'' (build_filter_complex en vi ds fs em vm) = ds \<and>
   suffix ''[v2]format=yuv420p[vout]'' (build_filter_complex en vi ds fs em vm) = (\<not> ds) \<and>
   build_filter_complex en vi ds fs em vm =
     subtitle_stage ''[0:v]'' en em (shared_style fs) ''[v1]'' @ '';'' @
     subtitle_stage ''[v1]'' vi vm (shared_style fs) ''[v2]'' @ '';'' @
     (if ds then ''[v2]scale=-2:720[vout]'' else ''[v2]format=yuv420p[vout]'')"
  using final_stage_suffix [of en vi ds fs em vm] build_filter_complex_stages [of en vi ds fs em vm]
  by (simp only: rescale_stage_def format_stage_def)

section \<open>The command: results\<close>

lemma sublist_mid: "sublist xs (ps @ xs @ ss)"
  by (auto simp: sublist_def)

lemma ffmpeg_cmd_shape:
  "ffmpeg_cmd f v en vi out m ds fs em vm =
     [f, ''-y'', ''-i'', v, ''-filter_complex'', build_filter_complex en vi ds fs em vm,
      ''-map'', ''[vout]'', ''-map'', ''0:a?''] @
     fst (build_encode_args m) @ snd (build_encode_args m) @
     [''-movflags'', ''+faststart'', out]"
  by (simp add: ffmpeg_cmd_def Let_def split: prod.splits)

lemma ffmpeg_cmd_maps:
  "sublist [''-map'', ''[vout]'', ''-map'', ''0:a?''] (ffmpeg_cmd f v en vi out m ds fs em vm)"
proof -
  have "ffmpeg_cmd f v en vi out m ds fs em vm =
     [f, ''-y'', ''-i'', v, ''-filter_complex'', build_filter_complex en vi ds fs em vm] @
     [''-map'', ''[vout]'', ''-map'', ''0:a?''] @
     (fst (build_encode_args m) @ snd (build_encode_args m) @
     [''-movflags'', ''+faststart'', out])"
    by (simp add: ffmpeg_cmd_shape)
  then show ?thesis by (simp only: sublist_mid)
qed

lemma ffmpeg_cmd_tail:
  "suffix [''-movflags'', ''+faststart'', out] (ffmpeg_cmd f v en vi out m ds fs em vm)"
  unfolding ffmpeg_cmd_shape by (simp only: suffix_def) (metis append.assoc)

lemma run_ffmpeg_found:
  "ffmpeg_path_guess e = Inr f \<Longrightarrow>
   run_ffmpeg e v en vi out m ds fs em vm = popen_wait e (ffmpeg_cmd f v en vi out m ds fs em vm)"
  by (simp add: run_ffmpeg_def)

text \<open>
  C7. For all job parameters the argument list starts with the executable and \<open>-y\<close>,
  maps \<open>[vout]\<close> and then \<open>0:a?\<close>, and ends with \<open>-movflags +faststart\<close> and the output
  path; whenever the executable resolves, this list is what the child process is started
  with.
\<close>

theorem ffmpeg_cmd_flags:
  "take 2 (ffmpeg_cmd f v en vi out m ds fs em vm) = [f, ''-y''] \<and>
   sublist [''-map'', ''[vout]'', ''-map'', ''0:a?''] (ffmpeg_cmd f v en vi out m ds fs em vm) \<and>
   suffix [''-movflags'', ''+faststart'', out] (ffmpeg_cmd f v en vi out m ds fs em vm) \<and>
   last (ffmpeg_cmd f v en vi out m ds fs em vm) = out \<and>
   ffmpeg_cmd f v en vi out m ds fs em vm =
     [f, ''-y'', ''-i'', v, ''-filter_complex'', build_filter_complex en vi ds fs em vm,
      ''-map'', ''[vout]'', ''-map'', ''0:a?''] @
     fst (build_encode_args m) @ snd (build_encode_args m) @
     [''-movflags'', ''+faststart'', out] \<and>
   (ffmpeg_path_guess e = Inr f \<longrightarrow>
    run_ffmpeg e v en vi out m ds fs em vm =
      popen_wait e (ffmpeg_cmd f v en vi out m ds fs em vm))"
proof (intro conjI impI)
  show "take 2 (ffmpeg_cmd f v en vi out m ds fs em vm) = [f, ''-y'']"
    by (simp add: ffmpeg_cmd_shape)
  show "last (ffmpeg_cmd f v en vi out m ds fs em vm) = out"
    by (simp add: ffmpeg_cmd_shape)
qed (rule ffmpeg_cmd_maps ffmpeg_cmd_tail ffmpeg_cmd_shape run_ffmpeg_found; assumption?)+

theorem ffmpeg_cmd_flags_witness:
  "ffmpeg_path_guess
     \<lparr>which = (\<lambda>n. Some ''/usr/bin/ffmpeg''), platform_system = ''Linux'',
      path_exists = (\<lambda>p. False), isfile = (\<lambda>p. True), isdir = (\<lambda>p. True),
      popen_wait = (\<lambda>cmd. if last cmd = ''/o/a_dual_subbed.mp4'' then Inr 0 else Inr 1)\<rparr>
     = Inr ''/usr/bin/ffmpeg'' \<and>
   run_ffmpeg
     \<lparr>which = (\<lambda>n. Some ''/usr/bin/ffmpeg''), platform_system = ''Linux'',
      path_exists = (\<lambda>p. False), isfile = (\<lambda>p. True), isdir = (\<lambda>p. True),
      popen_wait = (\<lambda>cmd. if last cmd = ''/o/a_dual_subbed.mp4'' then Inr 0 else Inr 1)\<rparr>
     ''/a.mp4'' ''/en.srt'' ''/vi.srt'' ''/o/a_dual_subbed.mp4'' ''Smaller'' False 24 60 24
     = Inr 0"
proof -
  let ?e = "\<lparr>which = (\<lambda>n. Some ''/usr/bin/ffmpeg''), platform_system = ''Linux'',
      path_exists = (\<lambda>p. False), isfile = (\<lambda>p. True), isdir = (\<lambda>p. True),
      popen_wait = (\<lambda>cmd. if last cmd = ''/o/a_dual_subbed.mp4'' then Inr (0::int) else Inr 1)\<rparr>"
  have g: "ffmpeg_path_guess ?e = Inr ''/usr/bin/ffmpeg''"
    by (simp add: ffmpeg_path_guess_def)
  show ?thesis
    using g ffmpeg_cmd_flags [of "''/usr/bin/ffmpeg''" "''/a.mp4''" "''/en.srt''" "''/vi.srt''"
        "''/o/a_dual_subbed.mp4''" "''Smaller''" False 24 60 24 ?e]
    by simp
qed

section \<open>Executable resolution: results\<close>

text \<open>
  C8. When the search path yields the tool, that path is returned. Otherwise, on Windows
  and when \<open>C:\ffmpeg\bin\ffmpeg.exe\<close> exists, that file is returned. Otherwise the
  function raises \<open>FileNotFoundError\<close> and returns no path.
\<close>

theorem ffmpeg_path_guess_resolution:
  "(which e ''ffmpeg'' = Some p \<and> p \<noteq> [] \<longrightarrow> ffmpeg_path_guess e = Inr p) \<and>
   ((which e ''ffmpeg'' = None \<or> which e ''ffmpeg'' = Some []) \<and>
      platform_system e = ''Windows'' \<and> path_exists e win_candidate \<longrightarrow>
    ffmpeg_path_guess e = Inr win_candidate) \<and>
   ((which e ''ffmpeg'' = None \<or> which e ''ffmpeg'' = Some []) \<and>
      \<not> (platform_system e = ''Windows'' \<and> path_exists e win_candidate) \<longrightarrow>
    ffmpeg_path_guess e = Inl tool_not_found)"
  by (auto simp: ffmpeg_path_guess_def)

theorem ffmpeg_path_guess_resolution_witness:
  "ffmpeg_path_guess
     \<lparr>which = (\<lambda>n. if n = ''ffmpeg'' then Some ''/usr/bin/ffmpeg'' else None),
      platform_system = ''Linux'', path_exists = (\<lambda>p. False), isfile = (\<lambda>p. False),
      isdir = (\<lambda>p. False), popen_wait = (\<lambda>cmd. Inr 0)\<rparr> = Inr ''/usr/bin/ffmpeg'' \<and>
   ffmpeg_path_guess
     \<lparr>which = (\<lambda>n. None), platform_system = ''Windows'',
      path_exists = (\<lambda>p. p = win_candidate), isfile = (\<lambda>p. False),
      isdir = (\<lambda>p. False), popen_wait = (\<lambda>cmd. Inr 0)\<rparr> = Inr win_candidate \<and>
   ffmpeg_path_guess
     \<lparr>which = (\<lambda>n. None), platform_system = ''Linux'',
      path_exists = (\<lambda>p. True), isfile = (\<lambda>p. False),
      isdir = (\<lambda>p. False), popen_wait = (\<lambda>cmd. Inr 0)\<rparr> = Inl tool_not_found \<and>
   ffmpeg_path_guess
     \<lparr>which = (\<lambda>n. None), platform_system = ''Windows'',
      path_exists = (\<lambda>p. False), isfile = (\<lambda>p. False),
      isdir = (\<lambda>p. False), popen_wait = (\<lambda>cmd. Inr 0)\<rparr> =
     Inl (FileNotFoundError ''FFmpeg executable not found. Install it or add to PATH.'')"
  using
    ffmpeg_path_guess_resolution [of
      "\<lparr>which = (\<lambda>n. if n = ''ffmpeg'' then Some ''/usr/bin/ffmpeg'' else None),
        platform_system = ''Linux'', path_exists = (\<lambda>p. False), isfile = (\<lambda>p. False),
        isdir = (\<lambda>p. False), popen_wait = (\<lambda>cmd. Inr 0)\<rparr>" "''/usr/bin/ffmpeg''"]
    ffmpeg_path_guess_resolution [of
      "\<lparr>which = (\<lambda>n. None), platform_system = ''Windows'',
        path_exists = (\<lambda>p. p = win_candidate), isfile = (\<lambda>p. False),
        isdir = (\<lambda>p. False), popen_wait = (\<lambda>cmd. Inr 0)\<rparr>" "[]"]
    ffmpeg_path_guess_resolution [of
      "\<lparr>which = (\<lambda>n. None), platform_system = ''Linux'',
        path_exists = (\<lambda>p. True), isfile = (\<lambda>p. False),
        isdir = (\<lambda>p. False), popen_wait = (\<lambda>cmd. Inr 0)\<rparr>" "[]"]
    ffmpeg_path_guess_resolution [of
      "\<lparr>which = (\<lambda>n. None), platform_system = ''Windows'',
        path_exists = (\<lambda>p. False), isfile = (\<lambda>p. False),
        isdir = (\<lambda>p. False), popen_wait = (\<lambda>cmd. Inr 0)\<rparr>" "[]"]
  by (simp add: tool_not_found_def)

section \<open>Drag and drop: results\<close>

lemma srt_not_video: "''.srt'' \<notin> VID_EXTS"
  by (simp add: VID_EXTS_def)

lemma multi_drop_step_cases:
  "multi_drop_step e s p =
     (if strip p = [] then s
      else if isdir e (strip p) then s\<lparr>out_dir := strip p\<rparr>
      else if is_video_file e (strip p) then s\<lparr>video_path := strip p\<rparr>
      else if is_srt_file e (strip p) then
        (if vi_hinted (strip p) then s\<lparr>vi_srt_path := strip p\<rparr>
         else if en_srt_path s = [] then s\<lparr>en_srt_path := strip p\<rparr>
         else s\<lparr>vi_srt_path := strip p\<rparr>)
      else s)"
  by (simp add: multi_drop_step_def Let_def is_video_file_def is_srt_file_def vi_hinted_def)

lemma video_not_srt: "is_video_file e q \<Longrightarrow> \<not> is_srt_file e q"
  using srt_not_video by (auto simp: is_video_file_def is_srt_file_def)

lemma dir_not_file: "isdir e q \<Longrightarrow> \<not> is_video_file e q \<and> \<not> is_srt_file e q"
  by (simp add: is_video_file_def is_srt_file_def)


lemma last_or_Nil: "last_or d [] = d"
  by (simp add: last_or_def)

lemma last_or_Cons: "last_or d (x # xs) = last_or x xs"
  by (simp add: last_or_def)

lemma dropped_items_Nil: "dropped_items [] = []"
  by (simp add: dropped_items_def)

lemma dropped_items_Cons:
  "dropped_items (p # ps) =
     (if strip p = [] then dropped_items ps else strip p # dropped_items ps)"
  by (simp add: dropped_items_def)

lemma multi_drop_paths_closed_form:
  "multi_drop_paths e s ps =
     s\<lparr>out_dir := last_or (out_dir s) (filter (isdir e) (dropped_items ps)),
       video_path := last_or (video_path s) (filter (is_video_file e) (dropped_items ps)),
       en_srt_path :=
         fst (route_srts (en_srt_path s) (vi_srt_path s)
                (filter (is_srt_file e) (dropped_items ps))),
       vi_srt_path :=
         snd (route_srts (en_srt_path s) (vi_srt_path s)
                (filter (is_srt_file e) (dropped_items ps)))\<rparr>"
proof (induction ps arbitrary: s)
  case Nil
  show ?case by (simp add: dropped_items_Nil last_or_Nil)
next
  case (Cons p ps)
  show ?case
    by (simp add: Cons.IH multi_drop_step_cases dropped_items_Cons last_or_Cons
        video_not_srt dir_not_file)
qed

lemma route_srts_keeps_english: "en \<noteq> [] \<Longrightarrow> fst (route_srts en vi qs) = en"
  by (induction qs arbitrary: vi) simp_all

lemma example_paths:
  "strip ''/a/movie.mp4'' = ''/a/movie.mp4''"
  "strip ''/a/english.srt'' = ''/a/english.srt''"
  "strip ''/a/vietnamese_sub.srt'' = ''/a/vietnamese_sub.srt''"
  "lower (path_suffix ''/a/movie.mp4'') = ''.mp4''"
  "lower (path_suffix ''/a/english.srt'') = ''.srt''"
  "lower (path_suffix ''/a/vietnamese_sub.srt'') = ''.srt''"
  "vi_hinted ''/a/english.srt'' = False"
  "vi_hinted ''/a/vietnamese_sub.srt'' = True"
  by code_simp+




lemma sample_env_fields:
  "isdir sample_env p = (p = ''/out'')"
  "isfile sample_env p =
     (p = ''/a/movie.mp4'' \<or> p = ''/a/english.srt'' \<or> p = ''/a/vietnamese_sub.srt'')"
  "which sample_env ''ffmpeg'' = Some ''/usr/bin/ffmpeg''"
  "platform_system sample_env = ''Linux''"
  by (simp_all add: sample_env_def)



text \<open>
  C10. A drop never replaces a non-empty English slot: if the English slot is not empty
  before a drop is processed, it holds the same path afterwards. A drop changes nothing
  but the four path slots. (The swap action exchanges the two subtitle slots.)
\<close>

theorem multi_drop_keeps_english:
  "(en_srt_path s \<noteq> [] \<longrightarrow>
      en_srt_path (on_multi_drop e s data) = en_srt_path s \<and>
      en_srt_path (multi_drop_paths e s paths) = en_srt_path s) \<and>
   status_text (on_multi_drop e s data) = status_text s \<and>
   mode (on_multi_drop e s data) = mode s \<and>
   downscale (on_multi_drop e s data) = downscale s \<and>
   font_size_var (on_multi_drop e s data) = font_size_var s \<and>
   en_margin_var (on_multi_drop e s data) = en_margin_var s \<and>
   vi_margin_var (on_multi_drop e s data) = vi_margin_var s \<and>
   progress_running (on_multi_drop e s data) = progress_running s \<and>
   en_srt_path (swap_srts s) = vi_srt_path s \<and> vi_srt_path (swap_srts s) = en_srt_path s"
  by (simp add: on_multi_drop_def multi_drop_paths_closed_form route_srts_keeps_english
      swap_srts_def Let_def)

lemma example_other:
  "parse_dnd_list ''/a/other.srt /a/movie.mp4'' = [''/a/other.srt'', ''/a/movie.mp4'']"
  "strip ''/a/other.srt'' = ''/a/other.srt''"
  "lower (path_suffix ''/a/other.srt'') = ''.srt''"
  "vi_hinted ''/a/other.srt'' = False"
  by code_simp+

theorem multi_drop_keeps_english_witness:
  "en_srt_path ((init_app ''/home/u'')\<lparr>en_srt_path := ''/a/english.srt''\<rparr>) \<noteq> [] \<and>
   en_srt_path (on_multi_drop sample_env
      ((init_app ''/home/u'')\<lparr>en_srt_path := ''/a/english.srt''\<rparr>)
      ''/a/other.srt /a/movie.mp4'') = ''/a/english.srt'' \<and>
   vi_srt_path (on_multi_drop sample_env
      ((init_app ''/home/u'')\<lparr>en_srt_path := ''/a/english.srt''\<rparr>)
      ''/a/other.srt /a/movie.mp4'') = ''/a/other.srt''"
proof -
  have vi: "vi_srt_path (on_multi_drop sample_env
      ((init_app ''/home/u'')\<lparr>en_srt_path := ''/a/english.srt''\<rparr>)
      ''/a/other.srt /a/movie.mp4'') = ''/a/other.srt''"
    by (simp add: on_multi_drop_def example_other example_paths multi_drop_step_cases
        sample_env_fields is_video_file_def is_srt_file_def VID_EXTS_def)
  show ?thesis
    using vi multi_drop_keeps_english [of "(init_app ''/home/u'')\<lparr>en_srt_path := ''/a/english.srt''\<rparr>"
        sample_env "''/a/other.srt /a/movie.mp4''" "[]"]
    by simp
qed

section \<open>Start: results\<close>




















end
